theory Spec2Isabelle
  imports Complex_Main "HOL-Library.Sublist"
begin

section \<open>Python strings (ASCII fragment)\<close>

text \<open>
  The service works on Python \<open>str\<close> values.  They are modelled as \<open>string\<close>, one
  \<open>char\<close> per code point, for code points in the ASCII range; the character classes
  below are the ASCII part of what \<open>str.lower\<close>, \<open>str.strip\<close>, \<open>str.title\<close> and the
  \<open>re\<close> classes \<open>\d\<close>, \<open>\s\<close>, \<open>\w\<close> accept.
\<close>

definition is_upper :: "char \<Rightarrow> bool" where
  "is_upper c = (let n = (of_char c :: int) in 65 \<le> n \<and> n \<le> 90)"

definition is_lower :: "char \<Rightarrow> bool" where
  "is_lower c = (let n = (of_char c :: int) in 97 \<le> n \<and> n \<le> 122)"

definition is_digit :: "char \<Rightarrow> bool" where
  "is_digit c = (let n = (of_char c :: int) in 48 \<le> n \<and> n \<le> 57)"

definition is_space :: "char \<Rightarrow> bool" where
  "is_space c = (let n = (of_char c :: int) in (9 \<le> n \<and> n \<le> 13) \<or> (28 \<le> n \<and> n \<le> 32))"

definition is_word :: "char \<Rightarrow> bool" where
  "is_word c = (is_upper c \<or> is_lower c \<or> is_digit c \<or> c = CHR ''_'')"

definition lower_char :: "char \<Rightarrow> char" where
  "lower_char c = (if is_upper c then char_of (of_char c + (32::int)) else c)"

definition upper_char :: "char \<Rightarrow> char" where
  "upper_char c = (if is_lower c then char_of (of_char c - (32::int)) else c)"

text \<open>\<open>s.lower()\<close>\<close>

definition lower :: "string \<Rightarrow> string" where
  "lower s = map lower_char s"

text \<open>\<open>s.strip()\<close>: leading and trailing whitespace removed.\<close>

definition strip :: "string \<Rightarrow> string" where
  "strip s = rev (dropWhile is_space (rev (dropWhile is_space s)))"

text \<open>
  \<open>s.title()\<close>: a cased character is upper-cased when the character before it is not
  cased and lower-cased otherwise.  The flag is "the previous character is cased".
\<close>

fun title_from :: "bool \<Rightarrow> string \<Rightarrow> string" where
  "title_from prev [] = []"
| "title_from prev (c # cs) =
     (if is_upper c \<or> is_lower c
      then (if prev then lower_char c else upper_char c) # title_from True cs
      else c # title_from False cs)"

definition title :: "string \<Rightarrow> string" where
  "title s = title_from False s"

text \<open>\<open>needle in hay\<close> for two strings: \<open>needle\<close> occurs as a contiguous substring.\<close>

fun starts_with :: "string \<Rightarrow> string \<Rightarrow> bool" where
  "starts_with [] hay = True"
| "starts_with (n # ns) [] = False"
| "starts_with (n # ns) (h # hs) = (n = h \<and> starts_with ns hs)"

fun contains :: "string \<Rightarrow> string \<Rightarrow> bool" where
  "contains needle [] = (needle = [])"
| "contains needle (h # hs) = (starts_with needle (h # hs) \<or> contains needle hs)"

text \<open>\<open>any(w in query for w in ws)\<close>\<close>

definition any_in :: "string list \<Rightarrow> string \<Rightarrow> bool" where
  "any_in ws query = list_ex (\<lambda>w. contains w query) ws"

section \<open>Regular expressions of the query parser\<close>

text \<open>
  The fragment of \<open>re\<close> syntax that the patterns of \<open>mapping.py\<close> use: literal
  characters, the classes \<open>\d\<close> and \<open>\s\<close>, greedy \<open>*\<close> and \<open>+\<close> on a class, \<open>{4}\<close> on a
  class, and greedy optional groups \<open>(?:...)?\<close> and \<open>x?\<close>.  The matcher returns, for a
  subject string, the list of remainders left by every way of matching, in the order
  in which the backtracking engine of \<open>re\<close> tries them; the head of the list is the
  match that \<open>re\<close> reports.
\<close>

datatype cls = Digit | Space

fun in_cls :: "cls \<Rightarrow> char \<Rightarrow> bool" where
  "in_cls Digit c = is_digit c"
| "in_cls Space c = is_space c"

datatype rx =
    Eps
  | Chr char
  | Cls cls
  | Seq rx rx
  | Opt rx
  | Star cls
  | Plus cls

text \<open>Greedy repetition of a class: the longest run first, then shorter ones.\<close>

fun greedy :: "cls \<Rightarrow> string \<Rightarrow> string list" where
  "greedy k [] = [[]]"
| "greedy k (c # cs) = (if in_cls k c then greedy k cs @ [c # cs] else [c # cs])"

fun rx_match :: "rx \<Rightarrow> string \<Rightarrow> string list" where
  "rx_match Eps s = [s]"
| "rx_match (Chr c) s = (case s of [] \<Rightarrow> [] | x # xs \<Rightarrow> if x = c then [xs] else [])"
| "rx_match (Cls k) s = (case s of [] \<Rightarrow> [] | x # xs \<Rightarrow> if in_cls k x then [xs] else [])"
| "rx_match (Seq a b) s = concat (map (rx_match b) (rx_match a s))"
| "rx_match (Opt a) s = rx_match a s @ [s]"
| "rx_match (Star k) s = greedy k s"
| "rx_match (Plus k) s =
     (case s of [] \<Rightarrow> [] | x # xs \<Rightarrow> if in_cls k x then greedy k xs else [])"

text \<open>A literal word, and a sequence of expressions.\<close>

definition lit :: "string \<Rightarrow> rx" where
  "lit s = foldr (\<lambda>c r. Seq (Chr c) r) s Eps"

definition seqs :: "rx list \<Rightarrow> rx" where
  "seqs rs = foldr Seq rs Eps"

text \<open>
  Every pattern of the parser has exactly one capturing group, so a compiled pattern is
  the expression before the group, the group, and the expression after it; \<open>pat_text\<close> is
  the pattern string as written in the source.
\<close>

record pattern =
  pat_text :: string
  pat_pre :: rx
  pat_grp :: rx
  pat_post :: rx

text \<open>
  All matches of a pattern that begin at the head of the subject, as pairs of the text
  captured by the group and the remainder after the whole match.
\<close>

definition match_here :: "pattern \<Rightarrow> string \<Rightarrow> (string \<times> string) list" where
  "match_here p s =
     concat (map (\<lambda>r1.
       concat (map (\<lambda>r2.
         map (\<lambda>r3. (take (length r1 - length r2) r1, r3)) (rx_match (pat_post p) r2))
         (rx_match (pat_grp p) r1)))
       (rx_match (pat_pre p) s))"

text \<open>
  \<open>re.findall(pattern, s)\<close> for a pattern with one group: the captured texts of the
  non-overlapping matches, scanning from the left.  \<open>skip\<close> counts the characters of
  the current match that are still to be passed over.
\<close>

fun findall_from :: "pattern \<Rightarrow> nat \<Rightarrow> string \<Rightarrow> string list" where
  "findall_from p skip [] =
     (case match_here p [] of [] \<Rightarrow> [] | (cap, rest) # _ \<Rightarrow> if skip = 0 then [cap] else [])"
| "findall_from p (Suc n) (c # cs) = findall_from p n cs"
| "findall_from p 0 (c # cs) =
     (case match_here p (c # cs) of
        [] \<Rightarrow> findall_from p 0 cs
      | (cap, rest) # _ \<Rightarrow> cap # findall_from p (length cs - length rest) cs)"

definition findall :: "pattern \<Rightarrow> string \<Rightarrow> string list" where
  "findall p s = findall_from p 0 s"

section \<open>Errors\<close>

text \<open>
  The exceptions that the modelled functions can raise: \<open>int(float(match))\<close> raises
  \<open>OverflowError\<close> when the float is infinite, and indexing the index matrix beyond
  its rows raises \<open>IndexError\<close>.
\<close>

datatype error = OverflowError | IndexError

section \<open>Parsed filters (schema.py)\<close>

record parsed_filters =
  genres :: "string list"
  actors :: "string list"
  runtime_min :: "int option"
  runtime_max :: "int option"
  vibe :: "string option"
  keywords_f :: "string list"
  year_min :: "int option"
  year_max :: "int option"

text \<open>\<open>ParsedFilters()\<close>: every field at its default.\<close>

definition ParsedFilters :: parsed_filters where
  "ParsedFilters = \<lparr> genres = [], actors = [], runtime_min = None, runtime_max = None,
     vibe = None, keywords_f = [], year_min = None, year_max = None \<rparr>"

section \<open>QueryParser: runtime extraction (mapping.py)\<close>

text \<open>The backslash, and the text of the number group shared by the runtime patterns.\<close>

definition bs :: string where
  "bs = [CHR 0x5C]"

definition number_text :: string where
  "number_text = ''('' @ bs @ ''d+(?:'' @ bs @ ''.'' @ bs @ ''d+)?)''"

text \<open>The number group: digits, optionally followed by a dot and digits.\<close>

definition number :: rx where
  "number = Seq (Plus Digit) (Opt (Seq (Chr CHR ''.'') (Plus Digit)))"

definition mk_pattern :: "string \<Rightarrow> rx list \<Rightarrow> rx \<Rightarrow> rx list \<Rightarrow> pattern" where
  "mk_pattern t a g b = \<lparr> pat_text = t, pat_pre = seqs a, pat_grp = g, pat_post = seqs b \<rparr>"

text \<open>\<open>self.runtime_patterns\<close>, in the order of the source.\<close>

definition runtime_patterns :: "pattern list" where
  "runtime_patterns = [
     mk_pattern (number_text @ bs @ ''s*minutes?'')
       [] number [Star Space, lit ''minute'', Opt (Chr CHR ''s'')],
     mk_pattern (number_text @ bs @ ''s*mins?'')
       [] number [Star Space, lit ''min'', Opt (Chr CHR ''s'')],
     mk_pattern (number_text @ bs @ ''s*hours?'')
       [] number [Star Space, lit ''hour'', Opt (Chr CHR ''s'')],
     mk_pattern (number_text @ bs @ ''s*hrs?'')
       [] number [Star Space, lit ''hr'', Opt (Chr CHR ''s'')],
     mk_pattern (''short(?:er)?'' @ bs @ ''s*(?:than'' @ bs @ ''s*)?'' @ number_text @ bs @ ''s*minutes?'')
       [lit ''short'', Opt (lit ''er''), Star Space, Opt (Seq (lit ''than'') (Star Space))]
       number [Star Space, lit ''minute'', Opt (Chr CHR ''s'')],
     mk_pattern (''long(?:er)?'' @ bs @ ''s*(?:than'' @ bs @ ''s*)?'' @ number_text @ bs @ ''s*minutes?'')
       [lit ''long'', Opt (lit ''er''), Star Space, Opt (Seq (lit ''than'') (Star Space))]
       number [Star Space, lit ''minute'', Opt (Chr CHR ''s'')],
     mk_pattern (''under'' @ bs @ ''s*'' @ number_text @ bs @ ''s*minutes?'')
       [lit ''under'', Star Space] number [Star Space, lit ''minute'', Opt (Chr CHR ''s'')],
     mk_pattern (''over'' @ bs @ ''s*'' @ number_text @ bs @ ''s*hours?'')
       [lit ''over'', Star Space] number [Star Space, lit ''hour'', Opt (Chr CHR ''s'')],
     mk_pattern (''less'' @ bs @ ''s*than'' @ bs @ ''s*'' @ number_text @ bs @ ''s*minutes?'')
       [lit ''less'', Star Space, lit ''than'', Star Space]
       number [Star Space, lit ''minute'', Opt (Chr CHR ''s'')],
     mk_pattern (''more'' @ bs @ ''s*than'' @ bs @ ''s*'' @ number_text @ bs @ ''s*hours?'')
       [lit ''more'', Star Space, lit ''than'', Star Space]
       number [Star Space, lit ''hour'', Opt (Chr CHR ''s'')],
     mk_pattern (''short(?:er)?'' @ bs @ ''s*(?:than'' @ bs @ ''s*)?'' @ number_text)
       [lit ''short'', Opt (lit ''er''), Star Space, Opt (Seq (lit ''than'') (Star Space))]
       number [],
     mk_pattern (''under'' @ bs @ ''s*'' @ number_text)
       [lit ''under'', Star Space] number []
   ]"

text \<open>
  Lines 162 to 169 of \<open>_extract_runtime\<close>: \<open>minutes = float(match)\<close>, multiplied by 60
  when the pattern is an hour pattern, then \<open>int(minutes)\<close>.  The arithmetic of the
  source is IEEE double arithmetic, which a conversion function \<open>conv\<close> stands for in
  \<open>extract_runtime\<close>: \<open>conv match hours\<close> is the integer obtained, or the exception
  raised by \<open>int\<close> on an infinite float.

  \<open>to_minutes\<close> is the conversion computed with exact decimal arithmetic.  It agrees
  with the double arithmetic of the source on every literal without a fractional
  part below \<open>2 ^ 53\<close>, where doubles are exact; on other literals the source rounds.
\<close>

definition digit_val :: "char \<Rightarrow> int" where
  "digit_val c = of_char c - 48"

definition digits_val :: "string \<Rightarrow> int" where
  "digits_val s = foldl (\<lambda>a c. 10 * a + digit_val c) 0 s"

text \<open>The power \<open>2 ^ 1024\<close>, above every finite double, written out.\<close>

definition float_limit :: int where
  "float_limit = 179769313486231590772930519078902473361797697894230657273430081157732675805500963132708477322407536021120113879871393357658789768814416622492847430639474124377767893424865485276302219601246094119453082952085005768838150682342462881473913110540827237163350510684586298239947245938479716304835356329624224137216"

definition to_minutes :: "string \<Rightarrow> bool \<Rightarrow> error + int" where
  "to_minutes m hours =
     (let whole = takeWhile (\<lambda>c. c \<noteq> CHR ''.'') m;
          frac = drop (Suc (length whole)) m;
          num = digits_val (whole @ frac) * (if hours then 60 else 1);
          den = 10 ^ length frac
      in if float_limit * den \<le> num then Inl OverflowError else Inr (num div den))"

text \<open>\<open>'hour' in pattern or 'hr' in pattern\<close>\<close>

definition is_hour_pattern :: "pattern \<Rightarrow> bool" where
  "is_hour_pattern p = (contains ''hour'' (pat_text p) \<or> contains ''hr'' (pat_text p))"

text \<open>
  The body of the loop over the patterns.  The inner loop over the matches ends with
  \<open>break\<close> in its first iteration, so it runs for the first match only and leaves the
  loop over the patterns running.
\<close>

definition runtime_step ::
  "(string \<Rightarrow> bool \<Rightarrow> error + int) \<Rightarrow> string \<Rightarrow> int option \<times> int option \<Rightarrow> pattern
     \<Rightarrow> error + (int option \<times> int option)" where
  "runtime_step conv query st p =
     (case findall p query of
        [] \<Rightarrow> Inr st
      | m # _ \<Rightarrow>
          (case conv m (is_hour_pattern p) of
             Inl e \<Rightarrow> Inl e
           | Inr minutes \<Rightarrow>
               if any_in [''short'', ''under'', ''less than''] query
               then Inr (fst st, Some minutes)
               else if any_in [''long'', ''over'', ''more than''] query
               then Inr (Some minutes, snd st)
               else Inr (fst st, Some minutes)))"

fun runtime_loop ::
  "(string \<Rightarrow> bool \<Rightarrow> error + int) \<Rightarrow> string \<Rightarrow> int option \<times> int option \<Rightarrow> pattern list
     \<Rightarrow> error + (int option \<times> int option)" where
  "runtime_loop conv query st [] = Inr st"
| "runtime_loop conv query st (p # ps) =
     (case runtime_step conv query st p of
        Inl e \<Rightarrow> Inl e
      | Inr st' \<Rightarrow> runtime_loop conv query st' ps)"

text \<open>\<open>QueryParser._extract_runtime\<close>: the pair \<open>(runtime_min, runtime_max)\<close>.\<close>

definition extract_runtime ::
  "(string \<Rightarrow> bool \<Rightarrow> error + int) \<Rightarrow> string \<Rightarrow> error + (int option \<times> int option)" where
  "extract_runtime conv query = runtime_loop conv query (None, None) runtime_patterns"

section \<open>QueryParser: year extraction\<close>

definition four_digits :: rx where
  "four_digits = seqs [Cls Digit, Cls Digit, Cls Digit, Cls Digit]"

definition year_text :: string where
  "year_text = ''('' @ bs @ ''d{4})''"

text \<open>\<open>year_patterns\<close>, in the order of the source.\<close>

definition year_patterns :: "pattern list" where
  "year_patterns = [
     mk_pattern year_text [] four_digits [],
     mk_pattern (''from'' @ bs @ ''s*'' @ year_text) [lit ''from'', Star Space] four_digits [],
     mk_pattern (''after'' @ bs @ ''s*'' @ year_text) [lit ''after'', Star Space] four_digits [],
     mk_pattern (''since'' @ bs @ ''s*'' @ year_text) [lit ''since'', Star Space] four_digits [],
     mk_pattern (''before'' @ bs @ ''s*'' @ year_text) [lit ''before'', Star Space] four_digits [],
     mk_pattern (''until'' @ bs @ ''s*'' @ year_text) [lit ''until'', Star Space] four_digits [],
     mk_pattern (year_text @ ''s'') [] four_digits [Chr CHR ''s''],
     mk_pattern (year_text @ ''s?'') [] four_digits [Opt (Chr CHR ''s'')]
   ]"

text \<open>
  The body of the loop over the matches of one pattern; \<open>int(match)\<close> is exact.  The
  loop has no \<open>break\<close>: every match of every pattern updates the bounds.
\<close>

definition year_step :: "string \<Rightarrow> int option \<times> int option \<Rightarrow> string \<Rightarrow> int option \<times> int option" where
  "year_step query st m =
     (let year = digits_val m in
      if contains ''s'' m \<or> contains ''1990s'' query then (Some year, Some (year + 9))
      else if any_in [''from'', ''after'', ''since''] query then (Some year, snd st)
      else if any_in [''before'', ''until''] query then (fst st, Some year)
      else (Some year, Some year))"

text \<open>\<open>QueryParser._extract_year\<close>: the pair \<open>(year_min, year_max)\<close>.\<close>

definition extract_year :: "string \<Rightarrow> int option \<times> int option" where
  "extract_year query =
     foldl (\<lambda>st p. foldl (year_step query) st (findall p query)) (None, None) year_patterns"

section \<open>QueryParser: genres, actors, vibe, keywords\<close>

text \<open>
  The dictionaries of the parser are iterated in insertion order, so they are
  association lists.
\<close>

definition genre_mapping :: "(string \<times> string list) list" where
  "genre_mapping = [
     (''comedy'', [''comedy'', ''funny'', ''humor'', ''humorous'', ''laugh'']),
     (''drama'', [''drama'', ''serious'', ''emotional'', ''touching'']),
     (''thriller'', [''thriller'', ''suspense'', ''mystery'', ''suspenseful'']),
     (''action'', [''action'', ''adventure'', ''exciting'', ''fast-paced'']),
     (''romance'', [''romance'', ''romantic'', ''love'', ''romantic comedy'', ''rom-com'']),
     (''horror'', [''horror'', ''scary'', ''frightening'', ''terrifying'']),
     (''sci-fi'', [''sci-fi'', ''science fiction'', ''futuristic'', ''space'', ''alien'']),
     (''fantasy'', [''fantasy'', ''magical'', ''wizard'', ''magic'']),
     (''crime'', [''crime'', ''criminal'', ''gangster'', ''mob'', ''detective'']),
     (''biography'', [''biography'', ''biographical'', ''true story'', ''real story'']),
     (''history'', [''historical'', ''history'', ''period piece'']),
     (''family'', [''family'', ''kids'', ''children'', ''family-friendly''])
   ]"

definition actor_mapping :: "(string \<times> string list) list" where
  "actor_mapping = [
     (''tom hanks'', [''tom hanks'', ''thomas hanks'']),
     (''leonardo dicaprio'', [''leonardo dicaprio'', ''leo dicaprio'']),
     (''morgan freeman'', [''morgan freeman'']),
     (''robert de niro'', [''robert de niro'', ''bobby de niro'']),
     (''al pacino'', [''al pacino'', ''alfredo pacino'']),
     (''brad pitt'', [''brad pitt'', ''bradley pitt'']),
     (''matt damon'', [''matt damon'', ''matthew damon'']),
     (''julia roberts'', [''julia roberts'']),
     (''meryl streep'', [''meryl streep'']),
     (''denzel washington'', [''denzel washington'']),
     (''keanu reeves'', [''keanu reeves'']),
     (''christian bale'', [''christian bale'']),
     (''heath ledger'', [''heath ledger'']),
     (''robin williams'', [''robin williams'']),
     (''anthony hopkins'', [''anthony hopkins'']),
     (''jodie foster'', [''jodie foster'']),
     (''harrison ford'', [''harrison ford'']),
     (''mark hamill'', [''mark hamill'']),
     (''carrie fisher'', [''carrie fisher'']),
     (''samuel l. jackson'', [''samuel l. jackson'', ''sam jackson'']),
     (''john travolta'', [''john travolta'']),
     (''uma thurman'', [''uma thurman'']),
     (''tim robbins'', [''tim robbins'']),
     (''marlon brando'', [''marlon brando'']),
     (''james caan'', [''james caan'']),
     (''edward norton'', [''edward norton'']),
     (''helena bonham carter'', [''helena bonham carter'']),
     (''laurence fishburne'', [''laurence fishburne'']),
     (''carrie-anne moss'', [''carrie-anne moss'']),
     (''ray liotta'', [''ray liotta'']),
     (''joe pesci'', [''joe pesci'']),
     (''scott glenn'', [''scott glenn'']),
     (''viggo mortensen'', [''viggo mortensen'']),
     (''ian mckellen'', [''ian mckellen'']),
     (''elijah wood'', [''elijah wood'']),
     (''orlando bloom'', [''orlando bloom'']),
     (''marion cotillard'', [''marion cotillard'']),
     (''tom hardy'', [''tom hardy'']),
     (''jack nicholson'', [''jack nicholson'']),
     (''louise fletcher'', [''louise fletcher'']),
     (''ben affleck'', [''ben affleck'']),
     (''kevin spacey'', [''kevin spacey'']),
     (''gabriel byrne'', [''gabriel byrne'']),
     (''chazz palminteri'', [''chazz palminteri''])
   ]"

definition vibe_keywords :: "(string \<times> string list) list" where
  "vibe_keywords = [
     (''funny'', [''funny'', ''hilarious'', ''comedy'', ''laugh'', ''humor'']),
     (''serious'', [''serious'', ''dramatic'', ''intense'', ''heavy'', ''emotional'']),
     (''romantic'', [''romantic'', ''love'', ''romance'', ''sweet'', ''cute'']),
     (''exciting'', [''exciting'', ''thrilling'', ''action-packed'', ''adrenaline'']),
     (''scary'', [''scary'', ''frightening'', ''terrifying'', ''horror'']),
     (''thought-provoking'', [''thought-provoking'', ''deep'', ''philosophical'', ''meaningful'']),
     (''light'', [''light'', ''easy'', ''fun'', ''entertaining'', ''feel-good'']),
     (''dark'', [''dark'', ''gritty'', ''disturbing'', ''intense''])
   ]"

text \<open>
  \<open>_extract_genres\<close> and \<open>_extract_actors\<close>: the title-cased key of every entry one
  of whose triggers occurs in the query, in the order of the dictionary.
\<close>

definition extract_genres :: "string \<Rightarrow> string list" where
  "extract_genres query = map (\<lambda>e. title (fst e)) (filter (\<lambda>e. any_in (snd e) query) genre_mapping)"

definition extract_actors :: "string \<Rightarrow> string list" where
  "extract_actors query = map (\<lambda>e. title (fst e)) (filter (\<lambda>e. any_in (snd e) query) actor_mapping)"

text \<open>\<open>_extract_vibe\<close>: the first vibe one of whose triggers occurs in the query.\<close>

definition extract_vibe :: "string \<Rightarrow> string option" where
  "extract_vibe query = map_option fst (find (\<lambda>e. any_in (snd e) query) vibe_keywords)"

definition stop_words :: "string list" where
  "stop_words = [''the'', ''a'', ''an'', ''and'', ''or'', ''but'', ''in'', ''on'', ''at'', ''to'',
     ''for'', ''of'', ''with'', ''by'', ''is'', ''are'', ''was'', ''were'', ''be'', ''been'',
     ''being'', ''have'', ''has'', ''had'', ''do'', ''does'', ''did'', ''will'', ''would'',
     ''could'', ''should'', ''may'', ''might'', ''must'', ''can'', ''find'', ''show'', ''me'',
     ''movies'', ''movie'', ''film'', ''films'']"

text \<open>
  The matches of the word pattern (a word boundary, word characters, a word boundary)
  in a string are its maximal runs of word characters, from the left; \<open>cur\<close> is the
  run being read, reversed.
\<close>

fun word_runs :: "string \<Rightarrow> string \<Rightarrow> string list" where
  "word_runs cur [] = (if cur = [] then [] else [rev cur])"
| "word_runs cur (c # cs) =
     (if is_word c then word_runs (c # cur) cs
      else (if cur = [] then [] else [rev cur]) @ word_runs [] cs)"

definition extract_keywords :: "string \<Rightarrow> string list" where
  "extract_keywords query =
     filter (\<lambda>word. word \<notin> set stop_words \<and> length word > 2) (word_runs [] (lower query))"

section \<open>QueryParser.parse_query\<close>

datatype query_type = VOICE | TEXT

definition parse_query ::
  "(string \<Rightarrow> bool \<Rightarrow> error + int) \<Rightarrow> string \<Rightarrow> query_type \<Rightarrow> error + parsed_filters" where
  "parse_query conv query qt =
     (let query_lower = strip (lower query) in
      case extract_runtime conv query_lower of
        Inl e \<Rightarrow> Inl e
      | Inr (rmin, rmax) \<Rightarrow>
          Inr \<lparr> genres = extract_genres query_lower,
                actors = extract_actors query_lower,
                runtime_min = rmin,
                runtime_max = rmax,
                vibe = extract_vibe query_lower,
                keywords_f = extract_keywords query_lower,
                year_min = fst (extract_year query_lower),
                year_max = snd (extract_year query_lower) \<rparr>)"

section \<open>MetadataMapper (mapping.py)\<close>

text \<open>\<open>self.normalized_genres\<close>, in insertion order.\<close>

definition normalized_genres :: "(string \<times> string list) list" where
  "normalized_genres = [
     (''Comedy'', [''comedy'', ''funny'', ''humor'', ''humorous'']),
     (''Drama'', [''drama'', ''serious'', ''emotional'', ''touching'']),
     (''Thriller'', [''thriller'', ''suspense'', ''mystery'']),
     (''Action'', [''action'', ''adventure'', ''exciting'']),
     (''Romance'', [''romance'', ''romantic'', ''love'']),
     (''Horror'', [''horror'', ''scary'', ''frightening'']),
     (''Sci-Fi'', [''sci-fi'', ''science fiction'', ''futuristic'']),
     (''Fantasy'', [''fantasy'', ''magical'', ''wizard'']),
     (''Crime'', [''crime'', ''criminal'', ''gangster'']),
     (''Biography'', [''biography'', ''biographical'']),
     (''History'', [''historical'', ''history'']),
     (''Family'', [''family'', ''kids'', ''children''])
   ]"

text \<open>
  The inner loop of \<open>_normalize_genres\<close>: the first standard genre whose variations
  contain the lower-cased genre or whose lower-cased name equals it; the loop stops
  there (\<open>break\<close>).
\<close>

definition normalize_genre :: "string \<Rightarrow> string option" where
  "normalize_genre genre =
     map_option fst
       (find (\<lambda>e. lower genre \<in> set (snd e) \<or> lower genre = lower (fst e)) normalized_genres)"

text \<open>The list \<open>normalized\<close> built by the outer loop, before duplicates are removed.\<close>

definition normalized_list :: "string list \<Rightarrow> string list" where
  "normalized_list gs = concat (map (\<lambda>g. case normalize_genre g of None \<Rightarrow> [] | Some s \<Rightarrow> [s]) gs)"

text \<open>
  \<open>_normalize_genres\<close> returns \<open>list(set(normalized))\<close>, a list without duplicates
  whose order is that of the hash table; the result is modelled as the set.
\<close>

definition normalize_genres :: "string list \<Rightarrow> string set" where
  "normalize_genres gs = set (normalized_list gs)"

record normalized_filters =
  n_genres :: "string set"
  n_actors :: "string list"
  n_runtime_min :: "int option"
  n_runtime_max :: "int option"
  n_vibe :: "string option"
  n_keywords :: "string list"
  n_year_min :: "int option"
  n_year_max :: "int option"

definition normalize_filters :: "parsed_filters \<Rightarrow> normalized_filters" where
  "normalize_filters f =
     \<lparr> n_genres = normalize_genres (genres f),
       n_actors = map lower (actors f),
       n_runtime_min = runtime_min f,
       n_runtime_max = runtime_max f,
       n_vibe = vibe f,
       n_keywords = map lower (keywords_f f),
       n_year_min = year_min f,
       n_year_max = year_max f \<rparr>"

section \<open>Catalog and engine (schema.py, recs.py)\<close>

datatype recommendation_strategy = POPULARITY | SIMILARITY

text \<open>
  \<open>Movie\<close>.  The float fields are modelled as reals; the fields \<open>id\<close> and \<open>title\<close>
  are named \<open>movie_id\<close> and \<open>movie_title\<close>.
\<close>

record movie =
  movie_id :: int
  movie_title :: string
  genre :: "string list"
  cast :: "string list"
  overview :: string
  runtime :: int
  popularity :: real
  release_year :: int
  director :: string
  rating :: real

text \<open>
  The engine: the catalog returned by \<open>data_loader.get_all_movies()\<close>, the fitted
  vectorizer (its \<open>transform\<close> on one document, \<open>None\<close> before it is built) and the
  rows of \<open>tfidf_matrix\<close>.  The vectors and \<open>cosine_similarity\<close> belong to the
  scikit-learn library; \<open>cosine_similarity\<close> is a parameter of the functions below.
\<close>

record engine =
  catalog :: "movie list"
  tfidf_vectorizer :: "(string \<Rightarrow> real list) option"
  tfidf_matrix :: "real list list"

text \<open>\<open>x.lower() in [y.lower() for y in ys]\<close>\<close>

definition in_lower :: "string \<Rightarrow> string list \<Rightarrow> bool" where
  "in_lower x ys = (lower x \<in> set (map lower ys))"

text \<open>
  \<open>_filter_movies\<close>: the catalog is narrowed by one list comprehension for each
  filter field that is set.
\<close>

definition filter_movies :: "engine \<Rightarrow> parsed_filters \<Rightarrow> movie list" where
  "filter_movies e filters =
     (let filtered = catalog e;
          filtered = (if genres filters \<noteq> []
                      then filter (\<lambda>m. list_ex (\<lambda>g. in_lower g (genre m)) (genres filters)) filtered
                      else filtered);
          filtered = (if actors filters \<noteq> []
                      then filter (\<lambda>m. list_ex (\<lambda>a. in_lower a (cast m)) (actors filters)) filtered
                      else filtered);
          filtered = (case runtime_min filters of
                        None \<Rightarrow> filtered
                      | Some lo \<Rightarrow> filter (\<lambda>m. runtime m \<ge> lo) filtered);
          filtered = (case runtime_max filters of
                        None \<Rightarrow> filtered
                      | Some hi \<Rightarrow> filter (\<lambda>m. runtime m \<le> hi) filtered);
          filtered = (case year_min filters of
                        None \<Rightarrow> filtered
                      | Some lo \<Rightarrow> filter (\<lambda>m. release_year m \<ge> lo) filtered);
          filtered = (case year_max filters of
                        None \<Rightarrow> filtered
                      | Some hi \<Rightarrow> filter (\<lambda>m. release_year m \<le> hi) filtered);
          filtered = (if keywords_f filters \<noteq> []
                      then filter (\<lambda>m. list_ex (\<lambda>k. contains k (lower (overview m)))
                                              (map lower (keywords_f filters))) filtered
                      else filtered)
      in filtered)"

text \<open>The table \<open>vibe_keywords\<close> of \<open>_calculate_vibe_boost\<close>.\<close>

definition vibe_boost_keywords :: "(string \<times> string list) list" where
  "vibe_boost_keywords = [
     (''funny'', [''comedy'', ''funny'', ''hilarious'', ''humor'', ''laugh'']),
     (''serious'', [''drama'', ''serious'', ''emotional'', ''intense'', ''heavy'']),
     (''romantic'', [''romance'', ''romantic'', ''love'', ''romantic comedy'']),
     (''exciting'', [''action'', ''thriller'', ''adventure'', ''exciting'', ''thrilling'']),
     (''scary'', [''horror'', ''scary'', ''frightening'', ''terrifying'']),
     (''thought-provoking'', [''drama'', ''biography'', ''history'', ''philosophical'']),
     (''light'', [''comedy'', ''family'', ''romance'', ''fun'', ''entertaining'']),
     (''dark'', [''crime'', ''thriller'', ''drama'', ''gritty'', ''intense''])
   ]"

definition calculate_vibe_boost :: "movie \<Rightarrow> string \<Rightarrow> real" where
  "calculate_vibe_boost m v =
     (case map_of vibe_boost_keywords v of
        None \<Rightarrow> 0
      | Some kws \<Rightarrow>
          min (real (length (filter (\<lambda>g. list_ex (\<lambda>k. contains k (lower g)) kws) (genre m))) * 0.5
               + real (length (filter (\<lambda>k. contains k (lower (overview m))) kws)) * 0.1)
              1)"

text \<open>\<open>if filters.vibe:\<close> holds for a vibe that is set and not the empty string.\<close>

definition vibe_term :: "movie \<Rightarrow> parsed_filters \<Rightarrow> real" where
  "vibe_term m filters =
     (case vibe filters of
        None \<Rightarrow> 0
      | Some v \<Rightarrow> if v = [] then 0 else calculate_vibe_boost m v)"

text \<open>
  The score of one movie in \<open>_popularity_strategy\<close>.  \<open>if filters.runtime_min and
  filters.runtime_max\<close> holds when both bounds are set and not zero.
\<close>

definition popularity_score :: "parsed_filters \<Rightarrow> movie \<Rightarrow> real" where
  "popularity_score filters m =
     popularity m
     + (if genres filters \<noteq> []
        then real (length (filter (\<lambda>g. in_lower g (genre m)) (genres filters))) * 0.5 else 0)
     + (if actors filters \<noteq> []
        then real (length (filter (\<lambda>a. in_lower a (cast m)) (actors filters))) * 0.3 else 0)
     + vibe_term m filters
     + (case (runtime_min filters, runtime_max filters) of
          (Some lo, Some hi) \<Rightarrow>
            if lo \<noteq> 0 \<and> hi \<noteq> 0
            then max 0 (1 - \<bar>real_of_int (runtime m) - (real_of_int lo + real_of_int hi) / 2\<bar> / 60) * 0.2
            else 0
        | _ \<Rightarrow> 0)"

text \<open>
  \<open>xs[:limit]\<close>: the first \<open>limit\<close> elements, and for a negative \<open>limit\<close> all but the
  last \<open>-limit\<close> elements.
\<close>

definition slice_to :: "int \<Rightarrow> 'a list \<Rightarrow> 'a list" where
  "slice_to limit xs =
     (if 0 \<le> limit then take (nat limit) xs else take (length xs - nat (- limit)) xs)"

text \<open>
  \<open>scored.sort(key=lambda x: x[1], reverse=True)\<close>: a stable sort into descending
  order of the score, elements of equal score keeping their order.
\<close>

definition sort_desc :: "('a \<times> real) list \<Rightarrow> ('a \<times> real) list" where
  "sort_desc scored = sort_key (\<lambda>x. - snd x) scored"

definition popularity_strategy :: "movie list \<Rightarrow> parsed_filters \<Rightarrow> int \<Rightarrow> movie list" where
  "popularity_strategy movies filters limit =
     map fst (slice_to limit (sort_desc (map (\<lambda>m. (m, popularity_score filters m)) movies)))"

text \<open>\<open>' '.join(parts)\<close>\<close>

fun join_space :: "string list \<Rightarrow> string" where
  "join_space [] = []"
| "join_space [x] = x"
| "join_space (x # y # ys) = x @ '' '' @ join_space (y # ys)"

text \<open>The boost added to the similarity of one movie.\<close>

definition similarity_boost :: "parsed_filters \<Rightarrow> movie \<Rightarrow> real" where
  "similarity_boost filters m =
     (if genres filters \<noteq> []
      then real (length (filter (\<lambda>g. in_lower g (genre m)) (genres filters))) * 0.3 else 0)
     + (if actors filters \<noteq> []
        then real (length (filter (\<lambda>a. in_lower a (cast m)) (actors filters))) * 0.2 else 0)
     + vibe_term m filters"

text \<open>The index of the first catalog entry with the given id, as the inner loop finds it.\<close>

fun index_of_id :: "int \<Rightarrow> movie list \<Rightarrow> nat option" where
  "index_of_id i [] = None"
| "index_of_id i (m # ms) =
     (if movie_id m = i then Some 0 else map_option Suc (index_of_id i ms))"

text \<open>
  The loop of \<open>_similarity_strategy\<close> over the movies.  Reading a row of the matrix
  beyond its last row raises \<open>IndexError\<close>, which ends the loop.
\<close>

fun similarities ::
  "(real list \<Rightarrow> real list \<Rightarrow> real) \<Rightarrow> engine \<Rightarrow> real list \<Rightarrow> parsed_filters \<Rightarrow> movie list
     \<Rightarrow> error + (movie \<times> real) list" where
  "similarities cosine_similarity e query_vector filters [] = Inr []"
| "similarities cosine_similarity e query_vector filters (m # ms) =
     (case (case index_of_id (movie_id m) (catalog e) of
              None \<Rightarrow> Inr (m, 0)
            | Some i \<Rightarrow>
                if i < length (tfidf_matrix e)
                then Inr (m, cosine_similarity query_vector (tfidf_matrix e ! i)
                             + similarity_boost filters m)
                else Inl IndexError) of
        Inl err \<Rightarrow> Inl err
      | Inr scored \<Rightarrow>
          (case similarities cosine_similarity e query_vector filters ms of
             Inl err \<Rightarrow> Inl err
           | Inr rest \<Rightarrow> Inr (scored # rest)))"

definition similarity_strategy ::
  "(real list \<Rightarrow> real list \<Rightarrow> real) \<Rightarrow> engine \<Rightarrow> movie list \<Rightarrow> parsed_filters \<Rightarrow> int
     \<Rightarrow> error + movie list" where
  "similarity_strategy cosine_similarity e movies filters limit =
     (case tfidf_vectorizer e of
        None \<Rightarrow> Inr (slice_to limit movies)
      | Some transform \<Rightarrow>
          if movies = [] then Inr (slice_to limit movies)
          else
            (let query_doc = join_space (keywords_f filters @ genres filters @ actors filters);
                 query_vector = transform query_doc
             in case similarities cosine_similarity e query_vector filters movies of
                  Inl err \<Rightarrow> Inl err
                | Inr scored \<Rightarrow> Inr (map fst (slice_to limit (sort_desc scored)))))"

text \<open>
  \<open>get_recommendations\<close>.  The variant is one of the two members of the enumeration,
  so the final \<open>else\<close> branch of the source is not reached.
\<close>

definition get_recommendations ::
  "(real list \<Rightarrow> real list \<Rightarrow> real) \<Rightarrow> engine \<Rightarrow> parsed_filters \<Rightarrow> recommendation_strategy \<Rightarrow> int
     \<Rightarrow> error + movie list" where
  "get_recommendations cosine_similarity e filters variant limit =
     (let filtered_movies = filter_movies e filters in
      case variant of
        POPULARITY \<Rightarrow>
          if filtered_movies = [] then Inr []
          else Inr (popularity_strategy filtered_movies filters limit)
      | SIMILARITY \<Rightarrow>
          similarity_strategy cosine_similarity e
            (if filtered_movies \<noteq> [] then filtered_movies else catalog e) filters limit)"

section \<open>Strategy assignment\<close>

text \<open>
  What a call can read from the running process: the hash of strings (the built-in
  \<open>hash\<close>, whose salt is drawn once when the interpreter starts), the clock, the state
  of the random number generator and a counter of calls.
\<close>

record process_env =
  str_hash :: "string \<Rightarrow> int"
  clock :: real
  random_state :: nat
  call_counter :: nat

text \<open>\<open>assign_variant\<close>: \<open>hash(session_id) % 2\<close> selects the strategy.\<close>

definition assign_variant :: "process_env \<Rightarrow> engine \<Rightarrow> string \<Rightarrow> recommendation_strategy" where
  "assign_variant env e session_id =
     (let hash_value = str_hash env session_id mod 2
      in if hash_value = 0 then POPULARITY else SIMILARITY)"

section \<open>The retention condition\<close>

text \<open>
  The retention condition in the words of the specification, to be compared with
  \<open>filter_movies\<close>: a conjunction over the fields that are set.  A genre or actor
  field matches by a substring test without regard to case: one requested name,
  lower-cased, occurs within one lower-cased tag or cast name of the movie.  The runtime
  and year bounds are inclusive.  Keywords match when one of them, lower-cased, occurs
  in the lower-cased overview.
\<close>

definition retained_as_worded :: "parsed_filters \<Rightarrow> movie \<Rightarrow> bool" where
  "retained_as_worded filters m =
     ((genres filters = [] \<or>
         list_ex (\<lambda>g. list_ex (\<lambda>t. contains (lower g) (lower t)) (genre m)) (genres filters)) \<and>
      (actors filters = [] \<or>
         list_ex (\<lambda>a. list_ex (\<lambda>c. contains (lower a) (lower c)) (cast m)) (actors filters)) \<and>
      (case runtime_min filters of None \<Rightarrow> True | Some lo \<Rightarrow> lo \<le> runtime m) \<and>
      (case runtime_max filters of None \<Rightarrow> True | Some hi \<Rightarrow> runtime m \<le> hi) \<and>
      (case year_min filters of None \<Rightarrow> True | Some lo \<Rightarrow> lo \<le> release_year m) \<and>
      (case year_max filters of None \<Rightarrow> True | Some hi \<Rightarrow> release_year m \<le> hi) \<and>
      (keywords_f filters = [] \<or>
         list_ex (\<lambda>k. contains (lower k) (lower (overview m))) (keywords_f filters)))"

text \<open>
  The same condition with the genre and actor fields matched by equality instead: one
  requested name, lower-cased, is equal to one lower-cased tag or cast name of the
  movie, that is, it is a member of the lower-cased list.
\<close>

definition retained :: "parsed_filters \<Rightarrow> movie \<Rightarrow> bool" where
  "retained filters m =
     ((genres filters = [] \<or> list_ex (\<lambda>g. lower g \<in> set (map lower (genre m))) (genres filters)) \<and>
      (actors filters = [] \<or> list_ex (\<lambda>a. lower a \<in> set (map lower (cast m))) (actors filters)) \<and>
      (case runtime_min filters of None \<Rightarrow> True | Some lo \<Rightarrow> lo \<le> runtime m) \<and>
      (case runtime_max filters of None \<Rightarrow> True | Some hi \<Rightarrow> runtime m \<le> hi) \<and>
      (case year_min filters of None \<Rightarrow> True | Some lo \<Rightarrow> lo \<le> release_year m) \<and>
      (case year_max filters of None \<Rightarrow> True | Some hi \<Rightarrow> release_year m \<le> hi) \<and>
      (keywords_f filters = [] \<or>
         list_ex (\<lambda>k. contains (lower k) (lower (overview m))) (keywords_f filters)))"

section \<open>A small catalog\<close>

text \<open>Three movies and an engine over them, used to instantiate the theorems below.\<close>

definition movie_a :: movie where
  "movie_a = \<lparr> movie_id = 1, movie_title = ''Alpha'', genre = [''Comedy''],
       cast = [''Tom Hanks''], overview = ''A funny story about a dog'', runtime = 100,
       popularity = 5, release_year = 1994, director = ''Ann'', rating = 7 \<rparr>"

definition movie_b :: movie where
  "movie_b = \<lparr> movie_id = 2, movie_title = ''Beta'', genre = [''Drama''],
       cast = [''Meryl Streep''], overview = ''A story about war'', runtime = 150,
       popularity = 9, release_year = 2001, director = ''Bob'', rating = 8 \<rparr>"

definition movie_c :: movie where
  "movie_c = \<lparr> movie_id = 3, movie_title = ''Gamma'', genre = [''Comedy'', ''Drama''],
       cast = [''Tom Hanks'', ''Meryl Streep''], overview = ''Love and war'', runtime = 95,
       popularity = 5, release_year = 2010, director = ''Cy'', rating = 6 \<rparr>"

definition sample_engine :: engine where
  "sample_engine = \<lparr> catalog = [movie_a, movie_b, movie_c],
       tfidf_vectorizer = Some (\<lambda>doc. []), tfidf_matrix = [[], [], []] \<rparr>"

text \<open>A similarity that is zero everywhere.\<close>

definition no_similarity :: "real list \<Rightarrow> real list \<Rightarrow> real" where
  "no_similarity u v = 0"

text \<open>Two process environments with the same string hash.\<close>

definition env_one :: process_env where
  "env_one = \<lparr> str_hash = (\<lambda>s. int (length s)), clock = 0, random_state = 0, call_counter = 0 \<rparr>"

definition env_two :: process_env where
  "env_two = \<lparr> str_hash = (\<lambda>s. int (length s)), clock = 17, random_state = 42, call_counter = 3 \<rparr>"

text \<open>A movie with a compound genre tag, alone in its catalog.\<close>

definition movie_d :: movie where
  "movie_d = \<lparr> movie_id = 4, movie_title = ''Delta'', genre = [''Action'', ''Sci-Fi''],
       cast = [''Keanu Reeves''], overview = ''Machines rule the world'', runtime = 136,
       popularity = 8, release_year = 1999, director = ''Dee'', rating = 8 \<rparr>"

definition scifi_engine :: engine where
  "scifi_engine = \<lparr> catalog = [movie_d], tfidf_vectorizer = Some (\<lambda>doc. []),
       tfidf_matrix = [[]] \<rparr>"

section \<open>Runtime extraction: which bound is set\<close>












section \<open>Runtime extraction: the order of the patterns\<close>

text \<open>
  Claim C4 states that the first pattern of the list that matches decides the value.
  On the query "2 hours 30 minutes" the first pattern of the list (minutes) matches
  and captures 30, yet the function returns the maximum 120: the hour pattern, later
  in the list, matches as well and overwrites the bound, because \<open>break\<close> leaves the
  loop over the matches only.
\<close>

theorem extract_runtime_later_pattern_overrides:
  "findall (hd runtime_patterns) ''2 hours 30 minutes'' = [''30''] \<and>
   to_minutes ''30'' (is_hour_pattern (hd runtime_patterns)) = Inr 30 \<and>
   extract_runtime to_minutes ''2 hours 30 minutes'' = Inr (None, Some 120)"
  by code_simp

section \<open>Year extraction: decades\<close>

text \<open>
  Claim C5 states that a decade such as "1980s" gives the bounds 1980 and 1989.  The
  captured group never contains the letter s, so the decade branch is taken only when
  the query contains the text "1990s": "find movies from the 1980s" gives the minimum
  1980 and no maximum, while "find movies from the 1990s" gives 1990 and 1999.
\<close>

theorem extract_year_decade_1980s:
  "extract_year ''find movies from the 1980s'' = (Some 1980, None) \<and>
   extract_year ''find movies from the 1990s'' = (Some 1990, Some 1999)"
  by code_simp

section \<open>Parsing a blank query\<close>










section \<open>The two genre tables\<close>

lemma canonical_fixed:
  "list_all (\<lambda>e. normalize_genre (title (fst e)) = Some (title (fst e))) genre_mapping"
  by code_simp

lemma canonical_names:
  "map (\<lambda>e. title (fst e)) genre_mapping =
     [''Comedy'', ''Drama'', ''Thriller'', ''Action'', ''Romance'', ''Horror'', ''Sci-Fi'',
      ''Fantasy'', ''Crime'', ''Biography'', ''History'', ''Family'']"
  by code_simp

lemma normalized_list_fixed:
  "\<forall>g \<in> set gs. normalize_genre g = Some g \<Longrightarrow> normalized_list gs = gs"
  by (induction gs) (simp_all add: normalized_list_def)

lemma extract_genres_fixed: "\<forall>g \<in> set (extract_genres q). normalize_genre g = Some g"
  using canonical_fixed by (auto simp: extract_genres_def list_all_iff)

text \<open>
  Claim C10.  The parser emits the twelve title-cased genre names Comedy, Drama,
  Thriller, Action, Romance, Horror, Sci-Fi, Fantasy, Crime, Biography, History and
  Family; the normalizer maps each of them to itself.  Hence, for every query, the
  normalized genres of the parsed filters are exactly the set of the extracted genres,
  which are without duplicates: none is dropped or renamed.
\<close>

theorem normalizer_keeps_interpreter_genres:
  "map (\<lambda>e. title (fst e)) genre_mapping =
     [''Comedy'', ''Drama'', ''Thriller'', ''Action'', ''Romance'', ''Horror'', ''Sci-Fi'',
      ''Fantasy'', ''Crime'', ''Biography'', ''History'', ''Family''] \<and>
   (\<forall>e \<in> set genre_mapping. normalize_genre (title (fst e)) = Some (title (fst e))) \<and>
   (\<forall>query. normalized_list (extract_genres query) = extract_genres query) \<and>
   (\<forall>conv query qt f. parse_query conv query qt = Inr f \<longrightarrow>
      n_genres (normalize_filters f) = set (genres f) \<and> distinct (genres f))"
proof (intro conjI allI impI ballI)
  show "map (\<lambda>e. title (fst e)) genre_mapping =
     [''Comedy'', ''Drama'', ''Thriller'', ''Action'', ''Romance'', ''Horror'', ''Sci-Fi'',
      ''Fantasy'', ''Crime'', ''Biography'', ''History'', ''Family'']"
    by (rule canonical_names)
next
  fix e assume "e \<in> set genre_mapping"
  then show "normalize_genre (title (fst e)) = Some (title (fst e))"
    using canonical_fixed by (simp add: list_all_iff)
next
  fix query
  show "normalized_list (extract_genres query) = extract_genres query"
    by (rule normalized_list_fixed[OF extract_genres_fixed])
next
  fix conv query qt f
  assume p: "parse_query conv query qt = Inr f"
  then have g: "genres f = extract_genres (strip (lower query))"
    by (auto simp: parse_query_def Let_def split: sum.splits prod.splits)
  show "n_genres (normalize_filters f) = set (genres f)"
    by (simp add: normalize_filters_def normalize_genres_def g
        normalized_list_fixed[OF extract_genres_fixed])
  have "distinct (map (\<lambda>e. title (fst e)) genre_mapping)"
    unfolding canonical_names by simp
  then show "distinct (genres f)"
    unfolding g extract_genres_def by (rule distinct_map_filter)
qed

lemma parse_funny_scifi:
  "parse_query to_minutes ''funny sci-fi'' TEXT =
     Inr \<lparr> genres = [''Comedy'', ''Sci-Fi''], actors = [], runtime_min = None,
           runtime_max = None, vibe = Some ''funny'', keywords_f = [''funny'', ''sci''],
           year_min = None, year_max = None \<rparr>"
  by code_simp

text \<open>The query "funny sci-fi" is parsed without error and instantiates C10.\<close>

theorem normalizer_keeps_interpreter_genres_witness:
  "n_genres (normalize_filters
     \<lparr> genres = [''Comedy'', ''Sci-Fi''], actors = [], runtime_min = None,
       runtime_max = None, vibe = Some ''funny'', keywords_f = [''funny'', ''sci''],
       year_min = None, year_max = None \<rparr>) = {''Comedy'', ''Sci-Fi''}"
  using normalizer_keeps_interpreter_genres[THEN conjunct2, THEN conjunct2, THEN conjunct2,
        rule_format, OF parse_funny_scifi]
  by simp

section \<open>Candidate filtering\<close>

lemma if_filter: "(if c then filter P xs else xs) = filter (\<lambda>m. \<not> c \<or> P m) xs"
  by simp

lemma opt_filter:
  "(case x of None \<Rightarrow> xs | Some v \<Rightarrow> filter (P v) xs)
     = filter (\<lambda>m. case x of None \<Rightarrow> True | Some v \<Rightarrow> P v m) xs"
  by (cases x) simp_all

lemma filter_movies_retained: "filter_movies e f = filter (retained f) (catalog e)"
proof -
  have "filter_movies e f = filter (\<lambda>m.
      (\<not> genres f \<noteq> [] \<or> list_ex (\<lambda>g. in_lower g (genre m)) (genres f)) \<and>
      (\<not> actors f \<noteq> [] \<or> list_ex (\<lambda>a. in_lower a (cast m)) (actors f)) \<and>
      (case runtime_min f of None \<Rightarrow> True | Some lo \<Rightarrow> lo \<le> runtime m) \<and>
      (case runtime_max f of None \<Rightarrow> True | Some hi \<Rightarrow> runtime m \<le> hi) \<and>
      (case year_min f of None \<Rightarrow> True | Some lo \<Rightarrow> lo \<le> release_year m) \<and>
      (case year_max f of None \<Rightarrow> True | Some hi \<Rightarrow> release_year m \<le> hi) \<and>
      (\<not> keywords_f f \<noteq> [] \<or>
         list_ex (\<lambda>k. contains k (lower (overview m))) (map lower (keywords_f f)))) (catalog e)"
    unfolding filter_movies_def Let_def if_filter opt_filter filter_filter
    by (simp only: conj_assoc conj_commute conj_left_commute)
  also have "\<dots> = filter (retained f) (catalog e)"
    by (rule filter_cong[OF refl]) (simp add: retained_def in_lower_def list_ex_iff)
  finally show ?thesis .
qed

lemma filter_movies_default: "filter_movies e ParsedFilters = catalog e"
  by (simp add: filter_movies_def ParsedFilters_def)

text \<open>
  Claim C7 states that a genre or actor field matches by a substring test.  With the
  requested genre "Sci" and a single movie tagged "Action" and "Sci-Fi", the condition
  as worded retains the movie, since "sci" occurs within "sci-fi"; the function returns
  no movie, because it tests whether "sci" is a member of the list of lower-cased tags.
\<close>

theorem filter_movies_not_substring:
  "filter (retained_as_worded (ParsedFilters\<lparr>genres := [''Sci'']\<rparr>)) (catalog scifi_engine)
     = [movie_d] \<and>
   filter_movies scifi_engine (ParsedFilters\<lparr>genres := [''Sci'']\<rparr>) = []"
  by code_simp

text \<open>
  Claim C7, amended.  Candidate filtering is a conjunction over the filter fields that
  are set: the movies returned are exactly the catalog entries, in catalog order, that
  satisfy \<open>retained\<close>.  A genre or actor field is satisfied when one requested name is
  equal, without regard to case, to one entry of the movie's genre or cast list; the
  runtime and year bounds that are set bound the movie's runtime and release year
  inclusively; the keyword field is satisfied when one keyword occurs, without regard
  to case, in the overview.  A field that is not set constrains nothing, and with no
  field set the whole catalog is returned.
\<close>

theorem filter_movies_conjunction:
  "filter_movies e filters = filter (retained filters) (catalog e) \<and>
   (m \<in> set (filter_movies e filters) \<longleftrightarrow> m \<in> set (catalog e) \<and> retained filters m) \<and>
   filter_movies e ParsedFilters = catalog e"
proof (intro conjI)
  show "filter_movies e filters = filter (retained filters) (catalog e)"
    by (rule filter_movies_retained)
  show "m \<in> set (filter_movies e filters) \<longleftrightarrow> m \<in> set (catalog e) \<and> retained filters m"
    by (simp add: filter_movies_retained)
  show "filter_movies e ParsedFilters = catalog e"
    by (rule filter_movies_default)
qed

lemma comedy_war_filter:
  "filter_movies sample_engine (ParsedFilters\<lparr>genres := [''COMEDY''], keywords_f := [''War'']\<rparr>)
     = [movie_c]"
  by code_simp

text \<open>The amended C7 at the genre COMEDY with the keyword War: only the third movie is retained.\<close>

theorem filter_movies_conjunction_witness:
  "filter_movies sample_engine (ParsedFilters\<lparr>genres := [''COMEDY''], keywords_f := [''War'']\<rparr>)
     = [movie_c] \<and>
   retained (ParsedFilters\<lparr>genres := [''COMEDY''], keywords_f := [''War'']\<rparr>) movie_c \<and>
   movie_c \<in> set (catalog sample_engine)"
  using filter_movies_conjunction[of sample_engine
      "ParsedFilters\<lparr>genres := [''COMEDY''], keywords_f := [''War'']\<rparr>" movie_c]
    comedy_war_filter
  by simp

section \<open>Strategy assignment is a function of the session identifier\<close>

text \<open>
  Claim C1.  Within one process, that is for one string hash, the strategy assigned to a
  session identifier is the same on every call: it does not depend on the clock, on the
  state of the random number generator, on a counter of calls or on the state of the
  engine.  It is the popularity strategy when the hash of the identifier is even and
  the similarity strategy otherwise.
\<close>

theorem assign_variant_deterministic:
  assumes "str_hash env1 = str_hash env2"
  shows "assign_variant env1 e1 s = assign_variant env2 e2 s \<and>
         (assign_variant env1 e1 s = POPULARITY \<longleftrightarrow> str_hash env1 s mod 2 = 0) \<and>
         (assign_variant env1 e1 s = SIMILARITY \<longleftrightarrow> str_hash env1 s mod 2 = 1)"
  using assms by (auto simp: assign_variant_def Let_def)


text \<open>Two environments that differ in clock, random state and counter instantiate C1.\<close>

theorem assign_variant_deterministic_witness:
  "str_hash env_one = str_hash env_two \<and>
   assign_variant env_one sample_engine ''abc'' = assign_variant env_two sample_engine ''abc'' \<and>
   assign_variant env_one sample_engine ''abc'' = SIMILARITY"
proof -
  have h: "str_hash env_one = str_hash env_two"
    by (simp add: env_one_def env_two_def)
  have v: "str_hash env_one ''abc'' mod 2 = 1"
    by (simp add: env_one_def)
  note t = assign_variant_deterministic[OF h, of sample_engine "''abc''" sample_engine]
  show ?thesis
    using h t[THEN conjunct1] t[THEN conjunct2, THEN conjunct2, THEN iffD2, OF v]
    by (intro conjI)
qed

section \<open>The popularity ranking\<close>

lemma insort_key_map:
  "insort_key f (g x) (map g ys) = map g (insort_key (\<lambda>y. f (g y)) x ys)"
  by (induction ys) simp_all

lemma sort_key_map: "sort_key f (map g xs) = map g (sort_key (\<lambda>y. f (g y)) xs)"
  by (induction xs) (simp_all add: insort_key_map)

lemma slice_to_map: "slice_to limit (map g xs) = map g (slice_to limit xs)"
  by (simp add: slice_to_def take_map)

lemma popularity_strategy_ranked:
  "popularity_strategy ms f limit = slice_to limit (sort_key (\<lambda>m. - popularity_score f m) ms)"
  by (simp add: popularity_strategy_def sort_desc_def sort_key_map slice_to_map comp_def)








section \<open>An empty candidate set\<close>

lemma get_recommendations_popularity:
  "get_recommendations cs e f POPULARITY limit
     = Inr (slice_to limit (sort_key (\<lambda>m. - popularity_score f m) (filter_movies e f)))"
  by (simp add: get_recommendations_def Let_def popularity_strategy_ranked slice_to_def)

lemma index_of_id_bound: "index_of_id i c = Some k \<Longrightarrow> k < length c"
  by (induction c arbitrary: k) (auto split: if_splits)

lemma similarities_total:
  assumes "length (catalog e) \<le> length (tfidf_matrix e)"
  shows "\<exists>scored. similarities cs e qv f ms = Inr scored \<and> map fst scored = ms"
proof (induction ms)
  case Nil
  show ?case by simp
next
  case (Cons m ms)
  then obtain rest where r: "similarities cs e qv f ms = Inr rest" "map fst rest = ms"
    by blast
  show ?case
  proof (cases "index_of_id (movie_id m) (catalog e)")
    case None
    with r show ?thesis by simp
  next
    case (Some i)
    with index_of_id_bound[OF Some] assms have "i < length (tfidf_matrix e)" by simp
    with Some r show ?thesis by simp
  qed
qed

lemma similarity_strategy_total:
  assumes "length (catalog e) \<le> length (tfidf_matrix e)"
  shows "\<exists>xs. set xs = set ms \<and> length xs = length ms \<and>
           (\<forall>limit. similarity_strategy cs e ms f limit = Inr (slice_to limit xs))"
proof (cases "tfidf_vectorizer e")
  case None
  then show ?thesis by (intro exI[of _ ms]) (simp add: similarity_strategy_def)
next
  case (Some transform)
  show ?thesis
  proof (cases "ms = []")
    case True
    with Some show ?thesis by (intro exI[of _ ms]) (simp add: similarity_strategy_def)
  next
    case False
    define qv where "qv = transform (join_space (keywords_f f @ genres f @ actors f))"
    from similarities_total[OF assms, of cs qv f ms]
    obtain scored where s: "similarities cs e qv f ms = Inr scored" "map fst scored = ms"
      by blast
    define xs where "xs = map fst (sort_desc scored)"
    have "set xs = set ms"
      unfolding xs_def sort_desc_def using s(2) by (metis set_map set_sort)
    moreover have "length xs = length ms"
      unfolding xs_def sort_desc_def using s(2) by (metis length_map length_sort)
    moreover have "similarity_strategy cs e ms f limit = Inr (slice_to limit xs)" for limit
      using Some False s(1)
      by (simp add: similarity_strategy_def Let_def qv_def[symmetric] xs_def slice_to_map)
    ultimately show ?thesis by blast
  qed
qed

lemma get_recommendations_total:
  assumes "length (catalog e) \<le> length (tfidf_matrix e)"
  shows "\<exists>xs. length xs \<le> length (catalog e) \<and>
           (\<forall>limit. get_recommendations cs e f v limit = Inr (slice_to limit xs))"
proof (cases v)
  case POPULARITY
  have "length (filter_movies e f) \<le> length (catalog e)"
    by (simp add: filter_movies_retained)
  then show ?thesis
    unfolding POPULARITY get_recommendations_popularity
    by (intro exI[of _ "sort_key (\<lambda>m. - popularity_score f m) (filter_movies e f)"]) simp
next
  case SIMILARITY
  define ms where "ms = (if filter_movies e f \<noteq> [] then filter_movies e f else catalog e)"
  have le: "length ms \<le> length (catalog e)"
    by (simp add: ms_def filter_movies_retained)
  from similarity_strategy_total[OF assms, of ms cs f]
  obtain xs where x: "length xs = length ms"
    "\<And>limit. similarity_strategy cs e ms f limit = Inr (slice_to limit xs)"
    by blast
  have "get_recommendations cs e f v limit = Inr (slice_to limit xs)" for limit
    unfolding SIMILARITY using x(2)[of limit]
    by (simp add: get_recommendations_def Let_def ms_def)
  with x(1) le show ?thesis by (intro exI[of _ xs]) simp
qed

text \<open>
  Claim C3.  When no catalog entry passes the filter, the popularity strategy returns
  the empty list.  The similarity strategy then ranks the whole catalog: provided the
  index matrix has a row for every catalog entry, as it has after construction, it
  returns without error movies of the catalog, and at least one when the limit is
  positive and the catalog is not empty.
\<close>

theorem empty_candidates:
  assumes "filter_movies e filters = []"
  shows "get_recommendations cs e filters POPULARITY limit = Inr [] \<and>
         (length (catalog e) \<le> length (tfidf_matrix e) \<longrightarrow>
            (\<exists>r. get_recommendations cs e filters SIMILARITY limit = Inr r \<and>
                 set r \<subseteq> set (catalog e) \<and>
                 (0 < limit \<and> catalog e \<noteq> [] \<longrightarrow> r \<noteq> [])))"
proof (intro conjI impI)
  show "get_recommendations cs e filters POPULARITY limit = Inr []"
    using assms by (simp add: get_recommendations_def)
next
  assume rows: "length (catalog e) \<le> length (tfidf_matrix e)"
  from similarity_strategy_total[OF rows, of "catalog e" cs filters]
  obtain xs where x: "set xs = set (catalog e)" "length xs = length (catalog e)"
    "\<And>limit. similarity_strategy cs e (catalog e) filters limit = Inr (slice_to limit xs)"
    by blast
  have g: "get_recommendations cs e filters SIMILARITY limit = Inr (slice_to limit xs)"
    using assms x(3)[of limit] by (simp add: get_recommendations_def)
  have sub: "set (slice_to limit xs) \<subseteq> set (catalog e)"
    using x(1) set_take_subset[of _ xs] by (auto simp: slice_to_def)
  have ne: "slice_to limit xs \<noteq> []" if "0 < limit \<and> catalog e \<noteq> []"
    using that x(2) by (auto simp: slice_to_def)
  from g sub ne
  show "\<exists>r. get_recommendations cs e filters SIMILARITY limit = Inr r \<and>
                 set r \<subseteq> set (catalog e) \<and>
                 (0 < limit \<and> catalog e \<noteq> [] \<longrightarrow> r \<noteq> [])"
    by blast
qed

lemma western_matches_nothing:
  "filter_movies sample_engine (ParsedFilters\<lparr>genres := [''western'']\<rparr>) = []"
  by code_simp

lemma western_similarity:
  "get_recommendations no_similarity sample_engine (ParsedFilters\<lparr>genres := [''western'']\<rparr>)
     SIMILARITY 2 = Inr [movie_a, movie_b]"
  by code_simp

text \<open>C3 at a genre that no movie of the sample catalog has.\<close>

theorem empty_candidates_witness:
  "filter_movies sample_engine (ParsedFilters\<lparr>genres := [''western'']\<rparr>) = [] \<and>
   get_recommendations no_similarity sample_engine (ParsedFilters\<lparr>genres := [''western'']\<rparr>)
     POPULARITY 2 = Inr [] \<and>
   get_recommendations no_similarity sample_engine (ParsedFilters\<lparr>genres := [''western'']\<rparr>)
     SIMILARITY 2 = Inr [movie_a, movie_b]"
  using empty_candidates[OF western_matches_nothing, of no_similarity 2]
    western_matches_nothing western_similarity
  by simp

section \<open>A limit that is not positive\<close>

text \<open>
  Claim C8 states that a limit of zero or less is rejected with an invalid-argument
  error.  The function validates nothing: with limit -1 on the sample catalog it
  returns two movies, and with limit 0 it returns the empty list.
\<close>

theorem nonpositive_limit_returns:
  "get_recommendations no_similarity sample_engine ParsedFilters POPULARITY (- 1)
     = Inr [movie_b, movie_a] \<and>
   get_recommendations no_similarity sample_engine ParsedFilters SIMILARITY 0 = Inr []"
  by code_simp

text \<open>
  Claim C8, amended.  For every filters value, every strategy and every limit of zero
  or less, provided the index matrix has a row for every catalog entry, the function
  returns without error: the empty list for limit 0, and for a negative limit the full
  ranking (the result for a limit equal to the catalog size) without its last
  \<open>-limit\<close> movies, as the slice of the source computes.
\<close>

theorem nonpositive_limit_slices:
  assumes "limit \<le> 0" and "length (catalog e) \<le> length (tfidf_matrix e)"
  shows "\<exists>full. get_recommendations cs e filters variant (int (length (catalog e))) = Inr full \<and>
           get_recommendations cs e filters variant limit
             = Inr (if limit = 0 then [] else take (length full - nat (- limit)) full)"
proof -
  from get_recommendations_total[OF assms(2), of cs filters variant]
  obtain xs where x: "length xs \<le> length (catalog e)"
    "\<And>l. get_recommendations cs e filters variant l = Inr (slice_to l xs)"
    by blast
  have a: "slice_to (int (length (catalog e))) xs = xs"
    using x(1) by (simp add: slice_to_def)
  have b: "slice_to limit xs = (if limit = 0 then [] else take (length xs - nat (- limit)) xs)"
    using assms(1) by (simp add: slice_to_def)
  show ?thesis
    using x(2)[of limit] x(2)[of "int (length (catalog e))"] a b
    by (intro exI[of _ xs]) simp
qed

lemma popularity_all_three:
  "get_recommendations no_similarity sample_engine ParsedFilters POPULARITY 3
     = Inr [movie_b, movie_a, movie_c]"
  by code_simp

lemma popularity_minus_one:
  "get_recommendations no_similarity sample_engine ParsedFilters POPULARITY (- 1)
     = Inr [movie_b, movie_a]"
  by code_simp

text \<open>The amended C8 at limit -1 on the sample catalog.\<close>

theorem nonpositive_limit_slices_witness:
  "(- 1 :: int) \<le> 0 \<and>
   length (catalog sample_engine) \<le> length (tfidf_matrix sample_engine) \<and>
   get_recommendations no_similarity sample_engine ParsedFilters POPULARITY 3
     = Inr [movie_b, movie_a, movie_c] \<and>
   get_recommendations no_similarity sample_engine ParsedFilters POPULARITY (- 1)
     = Inr [movie_b, movie_a]"
proof -
  have a: "(- 1 :: int) \<le> 0" by simp
  have b: "length (catalog sample_engine) \<le> length (tfidf_matrix sample_engine)"
    by (simp add: sample_engine_def)
  show ?thesis
    using nonpositive_limit_slices[OF a b, of no_similarity ParsedFilters POPULARITY]
      a b popularity_all_three popularity_minus_one
    by simp
qed


end
